theory Spec2Isabelle
  imports Main
begin

section \<open>Strings\<close>

text \<open>
  A JavaScript string is modelled as a \<^typ>\<open>string\<close> holding its UTF-8 bytes. The only
  length the services ever compute is that of a string of ASCII digits, where bytes,
  UTF-16 code units and characters coincide. Every byte of a non-ASCII character is
  at least 0x80, so it is never a digit, exactly as the regular expression
  \<^verbatim>\<open>\D\<close> (without the unicode-sets flag) treats every non-ASCII code unit.
\<close>

definition is_digit :: "char \<Rightarrow> bool" where
  "is_digit c = (c \<in> set ''0123456789'')"

text \<open>\<^verbatim>\<open>s.replace(/\D/g, '')\<close>\<close>

definition replace_non_digits :: "string \<Rightarrow> string" where
  "replace_non_digits s = filter is_digit s"

text \<open>\<^verbatim>\<open>s.startsWith(p)\<close>\<close>

definition startsWith :: "string \<Rightarrow> string \<Rightarrow> bool" where
  "startsWith s p = (take (length p) s = p)"

text \<open>\<^verbatim>\<open>s.substring(n)\<close>: past the end it is the empty string.\<close>

definition substring :: "string \<Rightarrow> nat \<Rightarrow> string" where
  "substring s n = drop n s"

section \<open>Cloud-API service: phone normalisation\<close>

text \<open>
  \<^verbatim>\<open>WhatsAppService.formatPhoneNumber\<close> of the Cloud-API service: the three
  statements of the source, each rebinding \<^verbatim>\<open>formatted\<close>.
\<close>

definition formatPhoneNumber :: "string \<Rightarrow> string" where
  "formatPhoneNumber phone =
     (let formatted = replace_non_digits phone;
          formatted = (if startsWith formatted ''0'' then substring formatted 1 else formatted);
          formatted = (if length formatted \<le> 11 then ''55'' @ formatted else formatted)
      in formatted)"

text \<open>
  The normalisation as the specification words it: remove every non-digit character;
  if what remains starts with the character 0, remove exactly that one character; if
  the length is then at most 11, put 55 in front.
\<close>

fun drop_one_leading_zero :: "string \<Rightarrow> string" where
  "drop_one_leading_zero [] = []"
| "drop_one_leading_zero (c # cs) = (if c = CHR ''0'' then cs else c # cs)"

definition normalize_spec :: "string \<Rightarrow> string" where
  "normalize_spec p =
     (let d = drop_one_leading_zero [c \<leftarrow> p. is_digit c]
      in if length d \<le> 11 then ''55'' @ d else d)"

section \<open>Values shared by the two services\<close>

text \<open>
  What the provider sends back is untyped JSON, and the services pass it on or render
  it without looking at its type. A JavaScript value is therefore one of: undefined,
  null, a boolean, a number, a string, or an object (an array included), the last given
  by the string its conversion to a string yields.

  A number is given the way the language's own conversion \<^verbatim>\<open>Number::toString\<close> reads
  it: not-a-number, an infinity with its sign, or a sign, the decimal digits
  \<open>d\<close> of the shortest representation and the position \<open>n\<close> of the decimal point,
  standing for \<open>0.d \<times> 10\<^sup>n\<close>. So 100 is the digits 1 at position 3, 1.5 the digits 15 at
  position 1, and \<open>10\<^sup>2\<^sup>1\<close> the digit 1 at position 22. Trailing zeros of the digits do not
  change the value and are dropped before rendering.
\<close>

datatype js_number = NaN | Infinity bool | Finite bool nat int

datatype js_value =
  Undefined
  | Null
  | Boolean bool
  | Number js_number
  | Str string
  | Obj string

text \<open>The test \<^verbatim>\<open>if (v)\<close>, also the one behind \<^verbatim>\<open>v || w\<close>.\<close>

fun truthy :: "js_value \<Rightarrow> bool" where
  "truthy Undefined = False"
| "truthy Null = False"
| "truthy (Boolean b) = b"
| "truthy (Number NaN) = False"
| "truthy (Number (Infinity negative)) = True"
| "truthy (Number (Finite negative d n)) = (d \<noteq> 0)"
| "truthy (Str s) = (s \<noteq> [])"
| "truthy (Obj s) = True"

text \<open>
  The decimal digits of a natural number, produced from the least significant one, in
  front of those already produced.
\<close>

definition digit_char :: "nat \<Rightarrow> char" where
  "digit_char d = ''0123456789'' ! d"

function decimal :: "nat \<Rightarrow> string \<Rightarrow> string" where
  "decimal n produced =
     (let produced = digit_char (n mod 10) # produced
      in if n div 10 = 0 then produced else decimal (n div 10) produced)"
  by pat_completeness auto
termination
  by (relation "measure fst") auto

declare decimal.simps [simp del]

definition significant :: "nat \<Rightarrow> string" where
  "significant d = rev (dropWhile (\<lambda>c. c = CHR ''0'') (rev (decimal d [])))"

text \<open>
  \<^verbatim>\<open>Number::toString\<close> in radix 10 for a positive number with \<open>k\<close> significant
  digits and the decimal point at \<open>n\<close>: the digits followed by zeros when
  \<open>k \<le> n \<le> 21\<close>; the digits with a point inside when \<open>0 < n \<le> 21\<close>; a zero, a point,
  zeros and the digits when \<open>-6 < n \<le> 0\<close>; and the exponential notation otherwise.
\<close>

definition positive_to_string :: "string \<Rightarrow> int \<Rightarrow> string" where
  "positive_to_string digits n =
     (let k = int (length digits) in
      if k \<le> n \<and> n \<le> 21 then digits @ replicate (nat (n - k)) CHR ''0''
      else if 0 < n \<and> n \<le> 21 then take (nat n) digits @ ''.'' @ drop (nat n) digits
      else if - 6 < n \<and> n \<le> 0 then ''0.'' @ replicate (nat (- n)) CHR ''0'' @ digits
      else
        let e = n - 1;
            exponent = (if e < 0 then ''-'' else ''+'') @ decimal (nat \<bar>e\<bar>) []
        in if k = 1 then digits @ ''e'' @ exponent
           else take 1 digits @ ''.'' @ drop 1 digits @ ''e'' @ exponent)"

fun number_to_string :: "js_number \<Rightarrow> string" where
  "number_to_string NaN = ''NaN''"
| "number_to_string (Infinity negative) = (if negative then ''-Infinity'' else ''Infinity'')"
| "number_to_string (Finite negative d n) =
     (if d = 0 then ''0''
      else (if negative then ''-'' else '''') @ positive_to_string (significant d) n)"

text \<open>A value inside a template literal.\<close>

fun to_string :: "js_value \<Rightarrow> string" where
  "to_string Undefined = ''undefined''"
| "to_string Null = ''null''"
| "to_string (Boolean b) = (if b then ''true'' else ''false'')"
| "to_string (Number x) = number_to_string x"
| "to_string (Str s) = s"
| "to_string (Obj s) = s"

text \<open>The number that a whole number is.\<close>

definition whole :: "nat \<Rightarrow> js_number" where
  "whole i = Finite False i (int (length (decimal i [])))"

text \<open>
  Both services answer with an object
  \<^verbatim>\<open>{ success: boolean; messageId?: string; error?: string }\<close>. An optional field
  that the returned object literal does not set is \<^const>\<open>Undefined\<close>, as it is for every
  reader of the object, and a field is present when it is not \<^const>\<open>Undefined\<close>. The
  declared type of the two fields is not enforced at run time: they hold whatever value
  the function puts there.
\<close>

record send_result =
  success :: bool
  messageId :: js_value
  error :: js_value

text \<open>
  The two request interfaces share the recipient's fields. The Cloud-API request adds
  \<^verbatim>\<open>message\<close>, \<^verbatim>\<open>linkUrl?\<close> and \<^verbatim>\<open>linkPreview?\<close>; the session request adds
  \<^verbatim>\<open>content\<close> and \<^verbatim>\<open>mediaUrl?\<close>.
\<close>

record recipient =
  recipientPhone :: string
  recipientName :: "string option"

record cloud_request = recipient +
  message :: string
  linkUrl :: "string option"
  linkPreview :: "bool option"

record session_request = recipient +
  content :: string
  mediaUrl :: "string option"

text \<open>
  A thrown value as the \<^verbatim>\<open>catch\<close> blocks read it: an \<^verbatim>\<open>Error\<close> object, whose
  \<^verbatim>\<open>message\<close> is a string (empty for an error built without one), and for
  a failed HTTP call the error object of the provider's answer,
  \<^verbatim>\<open>error.response?.data?.error\<close>. That one is \<^const>\<open>None\<close> when any link of the
  chain is undefined or the value is falsy; otherwise it is given by its \<^verbatim>\<open>message\<close>
  and its \<^verbatim>\<open>code\<close>, each \<^const>\<open>Undefined\<close> when missing.
\<close>

record provider_error =
  pe_message :: js_value
  pe_code :: js_value

record js_error =
  err_message :: string
  err_response_error :: "provider_error option"

text \<open>How an \<^verbatim>\<open>async\<close> function ends: its promise is fulfilled or rejected.\<close>

datatype 'a outcome = Fulfilled 'a | Rejected js_error

text \<open>
  The messages of the services, which are Portuguese: the bytes C3 A3, C3 A1 and
  C3 BA are the letters a with tilde, a with acute and u with acute.
\<close>

definition nao_esta :: string where
  "nao_esta = ''n'' @ [CHR 0xC3, CHR 0xA3] @ ''o est'' @ [CHR 0xC3, CHR 0xA1]"

definition erro_ao_enviar :: string where
  "erro_ao_enviar = ''Erro ao enviar mensagem''"

section \<open>Cloud-API service\<close>

text \<open>
  The object literals sent to the provider are kept as they are written, as JSON
  values whose object fields stay in the order of the source.
\<close>

datatype json =
  JString string
  | JBool bool
  | JArray "json list"
  | JObject "(string \<times> json) list"

fun field :: "string \<Rightarrow> json \<Rightarrow> json option" where
  "field k (JObject kvs) = map_of kvs k"
| "field k _ = None"

text \<open>One \<^verbatim>\<open>axios.post(url, payload, { headers })\<close>.\<close>

record http_post =
  url :: string
  payload :: json
  headers :: "(string \<times> string) list"

text \<open>
  The provider's answer to a call that did not throw, as far as the service reads it
  with \<^verbatim>\<open>response.data.messages[0].id\<close>: \<^verbatim>\<open>messages\<close> is missing, or it is a list
  of messages, each given by its \<^verbatim>\<open>id\<close>, which is \<^const>\<open>Undefined\<close> for a message
  without one.
\<close>

record reply_message =
  msg_id :: js_value

record provider_response =
  messages :: "reply_message list option"

text \<open>
  The provider is a parameter: what \<^verbatim>\<open>await axios.post(...)\<close> gives for a call,
  either the answer or the thrown error.
\<close>

type_synonym provider = "http_post \<Rightarrow> js_error + provider_response"

text \<open>The fields of the singleton, set once by the constructor from the environment.\<close>

record cloud_service =
  apiUrl :: string
  accessToken :: string
  phoneNumberId :: string
  businessAccountId :: string

definition isConfigured :: "cloud_service \<Rightarrow> bool" where
  "isConfigured this = (accessToken this \<noteq> [] \<and> phoneNumberId this \<noteq> [])"

definition not_configured_send :: string where
  "not_configured_send =
     ''WhatsApp Cloud API '' @ nao_esta @ '' configurada. Verifique as vari''
       @ [CHR 0xC3, CHR 0xA1] @ ''veis de ambiente.''"

definition not_configured_template :: string where
  "not_configured_template = ''WhatsApp Cloud API '' @ nao_esta @ '' configurada.''"

text \<open>Two line feeds, the link emoji U+1F517 (F0 9F 94 97 in UTF-8) and a space.\<close>

definition link_marker :: string where
  "link_marker = [CHR 0x0A, CHR 0x0A, CHR 0xF0, CHR 0x9F, CHR 0x94, CHR 0x97] @ '' ''"

text \<open>
  Reading \<^verbatim>\<open>response.data.messages[0].id\<close> throws a TypeError inside the
  \<^verbatim>\<open>try\<close> block when \<^verbatim>\<open>messages\<close> is missing and when it has no first message;
  the error carries the engine's message and no provider answer. Otherwise the reading
  gives the first message's id.
\<close>

definition no_messages :: js_error where
  "no_messages =
     \<lparr>err_message = ''Cannot read properties of undefined (reading '0')'',
      err_response_error = None\<rparr>"

definition no_first_message :: js_error where
  "no_first_message =
     \<lparr>err_message = ''Cannot read properties of undefined (reading 'id')'',
      err_response_error = None\<rparr>"

definition first_message_id :: "provider_response \<Rightarrow> js_error + js_value" where
  "first_message_id response =
     (case messages response of
        None \<Rightarrow> Inl no_messages
      | Some [] \<Rightarrow> Inl no_first_message
      | Some (first # _) \<Rightarrow> Inr (msg_id first))"

definition bearer_headers :: "cloud_service \<Rightarrow> (string \<times> string) list" where
  "bearer_headers this =
     [(''Authorization'', ''Bearer '' @ accessToken this),
      (''Content-Type'', ''application/json'')]"

text \<open>The \<^verbatim>\<open>catch\<close> block of \<^verbatim>\<open>sendMessage\<close>.\<close>

definition sendMessage_catch :: "js_error \<Rightarrow> send_result" where
  "sendMessage_catch e =
     (let errorMessage = erro_ao_enviar;
          errorMessage =
            (case err_response_error e of
               Some whatsappError \<Rightarrow>
                 ''WhatsApp API Error: '' @ to_string (pe_message whatsappError)
                   @ '' (Code: '' @ to_string (pe_code whatsappError) @ '')''
             | None \<Rightarrow> if err_message e \<noteq> [] then err_message e else errorMessage)
      in \<lparr>success = False, messageId = Undefined, error = Str errorMessage\<rparr>)"

text \<open>
  \<^verbatim>\<open>sendMessage\<close> of the Cloud-API service. The result is paired with the calls
  made to the provider, in order. The test \<^verbatim>\<open>if (request.linkUrl)\<close> fails for an
  undefined link and for an empty one; \<^verbatim>\<open>request.linkPreview !== false\<close> holds for
  an undefined preview flag. Logging is left out.
\<close>

definition sendMessage_cloud ::
  "cloud_service \<Rightarrow> provider \<Rightarrow> cloud_request \<Rightarrow> send_result outcome \<times> http_post list" where
  "sendMessage_cloud this post request =
     (if \<not> isConfigured this then
        (Fulfilled \<lparr>success = False, messageId = Undefined,
           error = Str not_configured_send\<rparr>, [])
      else
        let formattedPhone = formatPhoneNumber (recipientPhone request);
            url = apiUrl this @ ''/'' @ phoneNumberId this @ ''/messages'';
            messageText =
              (case linkUrl request of
                 Some l \<Rightarrow> if l \<noteq> [] then message request @ link_marker @ l else message request
               | None \<Rightarrow> message request);
            payload = JObject
              [(''messaging_product'', JString ''whatsapp''),
               (''recipient_type'', JString ''individual''),
               (''to'', JString formattedPhone),
               (''type'', JString ''text''),
               (''text'', JObject
                  [(''preview_url'', JBool (linkPreview request \<noteq> Some False)),
                   (''body'', JString messageText)])];
            call = \<lparr>url = url, payload = payload, headers = bearer_headers this\<rparr>
        in case post call of
             Inr response \<Rightarrow>
               (case first_message_id response of
                  Inr first_id \<Rightarrow>
                    (Fulfilled \<lparr>success = True, messageId = first_id, error = Undefined\<rparr>,
                     [call])
                | Inl e \<Rightarrow> (Fulfilled (sendMessage_catch e), [call]))
           | Inl e \<Rightarrow> (Fulfilled (sendMessage_catch e), [call]))"

text \<open>
  \<^verbatim>\<open>sendTemplateMessage(recipientPhone, templateName, languageCode = 'pt_BR',
  parameters?)\<close>. A default parameter value replaces an undefined argument; an array is
  truthy even when empty, so the components are attached when the array has an element.
  In the \<^verbatim>\<open>catch\<close> block, \<^verbatim>\<open>a || b\<close> is \<^verbatim>\<open>a\<close> when that is truthy and
  \<^verbatim>\<open>b\<close> otherwise.
\<close>

definition template_components :: "string list \<Rightarrow> json" where
  "template_components parameters =
     JArray [JObject
       [(''type'', JString ''body''),
        (''parameters'',
           JArray (map (\<lambda>param. JObject [(''type'', JString ''text''), (''text'', JString param)])
             parameters))]]"

definition sendTemplateMessage_catch :: "js_error \<Rightarrow> send_result" where
  "sendTemplateMessage_catch e =
     \<lparr>success = False, messageId = Undefined,
      error =
        (case err_response_error e of
           Some whatsappError \<Rightarrow>
             if truthy (pe_message whatsappError) then pe_message whatsappError
             else Str (err_message e)
         | None \<Rightarrow> Str (err_message e))\<rparr>"

definition sendTemplateMessage ::
  "cloud_service \<Rightarrow> provider \<Rightarrow> string \<Rightarrow> string \<Rightarrow> string option \<Rightarrow> string list option
     \<Rightarrow> send_result outcome \<times> http_post list" where
  "sendTemplateMessage this post recipientPhone' templateName languageCode parameters =
     (if \<not> isConfigured this then
        (Fulfilled \<lparr>success = False, messageId = Undefined,
           error = Str not_configured_template\<rparr>, [])
      else
        let languageCode = (case languageCode of None \<Rightarrow> ''pt_BR'' | Some c \<Rightarrow> c);
            formattedPhone = formatPhoneNumber recipientPhone';
            url = apiUrl this @ ''/'' @ phoneNumberId this @ ''/messages'';
            components =
              (case parameters of
                 Some ps \<Rightarrow> if 0 < length ps then [(''components'', template_components ps)] else []
               | None \<Rightarrow> []);
            payload = JObject
              [(''messaging_product'', JString ''whatsapp''),
               (''to'', JString formattedPhone),
               (''type'', JString ''template''),
               (''template'', JObject
                  ([(''name'', JString templateName),
                    (''language'', JObject [(''code'', JString languageCode)])]
                   @ components))];
            call = \<lparr>url = url, payload = payload, headers = bearer_headers this\<rparr>
        in case post call of
             Inr response \<Rightarrow>
               (case first_message_id response of
                  Inr first_id \<Rightarrow>
                    (Fulfilled \<lparr>success = True, messageId = first_id, error = Undefined\<rparr>,
                     [call])
                | Inl e \<Rightarrow> (Fulfilled (sendTemplateMessage_catch e), [call]))
           | Inl e \<Rightarrow> (Fulfilled (sendTemplateMessage_catch e), [call]))"

section \<open>Session service\<close>

text \<open>
  The session service drives a whatsapp-web.js \<^verbatim>\<open>Client\<close>. The library is a
  parameter: what each awaited call gives, either its value or the thrown error. Its
  values have the shape of the library's type declarations: \<^verbatim>\<open>getNumberId\<close>
  resolves to null or to an identifier with its \<^verbatim>\<open>_serialized\<close> string, and a sent
  message carries \<^verbatim>\<open>id._serialized\<close>.
\<close>

datatype client = Client

datatype media = MessageMedia string

record contact_id =
  serialized :: string

record sent_message =
  id_serialized :: string

record library =
  getNumberId :: "string \<Rightarrow> js_error + contact_id option"
  fromUrl :: "string \<Rightarrow> js_error + media"
  sendMessage_text :: "string \<Rightarrow> string \<Rightarrow> js_error + sent_message"
  sendMessage_media :: "string \<Rightarrow> media \<Rightarrow> string \<Rightarrow> js_error + sent_message"
  logout :: "js_error + unit"
  destroy :: "js_error + unit"

text \<open>The calls the service makes on the library, logged in order.\<close>

datatype library_call =
  NewClient
  | On string
  | ClientInitialize
  | GetNumberId string
  | FromUrl string
  | SendMessageText string string
  | SendMessageMedia string media string
  | Logout
  | Destroy

text \<open>The private fields of the singleton.\<close>

record session_service =
  client :: "client option"
  isInitializing :: bool
  qrCodeData :: "string option"
  isReady :: bool
  phoneNumber :: "string option"

definition new_session_service :: session_service where
  "new_session_service =
     \<lparr>client = None, isInitializing = False, qrCodeData = None, isReady = False,
      phoneNumber = None\<rparr>"

subsection \<open>initialize\<close>

text \<open>
  JavaScript runs an \<^verbatim>\<open>async\<close> function without interruption up to its first
  \<^verbatim>\<open>await\<close>. \<^verbatim>\<open>initialize\<close> below is that first part of \<^verbatim>\<open>initialize()\<close>: the
  call either returns at once, or it is left suspended at
  \<^verbatim>\<open>await this.client.initialize()\<close>, having built a client and registered the five
  callbacks. \<^verbatim>\<open>initialize_settled\<close> is the rest of the function, run when the awaited
  promise settles: nothing more on success, the \<^verbatim>\<open>catch\<close> block on failure.
  The constructors and \<^verbatim>\<open>on\<close> are called with constant arguments and do not throw;
  \<^verbatim>\<open>client.initialize()\<close> is itself \<^verbatim>\<open>async\<close>, so its failure arrives through
  the promise. Logging is left out.
\<close>

datatype init_status = Returned | Awaiting

definition initialize :: "session_service \<Rightarrow> init_status \<times> session_service \<times> library_call list" where
  "initialize this =
     (if client this \<noteq> None \<and> isReady this then (Returned, this, [])
      else if isInitializing this then (Returned, this, [])
      else
        (Awaiting,
         this\<lparr>isInitializing := True, client := Some Client\<rparr>,
         [NewClient, On ''qr'', On ''authenticated'', On ''ready'', On ''disconnected'',
          On ''auth_failure'', ClientInitialize]))"

definition initialize_settled ::
  "js_error + unit \<Rightarrow> session_service \<Rightarrow> unit outcome \<times> session_service" where
  "initialize_settled r this =
     (case r of
        Inr _ \<Rightarrow> (Fulfilled (), this)
      | Inl e \<Rightarrow> (Rejected e, this\<lparr>isInitializing := False\<rparr>))"

text \<open>
  The five callbacks. The argument of \<^verbatim>\<open>on_ready\<close> is
  \<^verbatim>\<open>info.wid.user\<close> of the client when it has an \<^verbatim>\<open>info\<close>;
  \<^verbatim>\<open>this.client?.info\<close> is undefined when there is no client.
\<close>

definition on_qr :: "string \<Rightarrow> session_service \<Rightarrow> session_service" where
  "on_qr qr this = this\<lparr>qrCodeData := Some qr\<rparr>"

definition on_authenticated :: "session_service \<Rightarrow> session_service" where
  "on_authenticated this = this\<lparr>qrCodeData := None\<rparr>"

definition on_ready :: "string option \<Rightarrow> session_service \<Rightarrow> session_service" where
  "on_ready info this =
     (let this = this\<lparr>isReady := True, isInitializing := False\<rparr>
      in case (client this, info) of
           (Some _, Some user) \<Rightarrow> this\<lparr>phoneNumber := Some user\<rparr>
         | _ \<Rightarrow> this)"

definition on_disconnected :: "string \<Rightarrow> session_service \<Rightarrow> session_service" where
  "on_disconnected reason this = this\<lparr>isReady := False, qrCodeData := None\<rparr>"

definition on_auth_failure :: "string \<Rightarrow> session_service \<Rightarrow> session_service" where
  "on_auth_failure msg this =
     this\<lparr>isReady := False, qrCodeData := None, isInitializing := False\<rparr>"

subsection \<open>sendMessage\<close>

definition not_connected :: string where
  "not_connected =
     ''WhatsApp '' @ nao_esta @ '' conectado. Inicialize o cliente primeiro.''"

definition not_registered :: "string \<Rightarrow> string" where
  "not_registered phone =
     ''O n'' @ [CHR 0xC3, CHR 0xBA] @ ''mero '' @ phone @ '' '' @ nao_esta
       @ '' registrado no WhatsApp.''"

text \<open>The \<^verbatim>\<open>catch\<close> block of the session service's \<^verbatim>\<open>sendMessage\<close>.\<close>

definition sendMessage_session_catch :: "js_error \<Rightarrow> send_result" where
  "sendMessage_session_catch e =
     \<lparr>success = False, messageId = Undefined,
      error = Str (if err_message e \<noteq> [] then err_message e else erro_ao_enviar)\<rparr>"

definition sent :: "sent_message \<Rightarrow> send_result" where
  "sent sentMessage =
     \<lparr>success = True, messageId = Str (id_serialized sentMessage), error = Undefined\<rparr>"

text \<open>
  The two branches of \<^verbatim>\<open>if (request.mediaUrl)\<close>, each with the calls made on the
  library so far: the media is fetched and sent with the text as its caption, or the
  text is sent alone.
\<close>

definition send_media ::
  "library \<Rightarrow> session_request \<Rightarrow> string \<Rightarrow> string \<Rightarrow> string
     \<Rightarrow> send_result \<times> library_call list" where
  "send_media lib request formattedPhone validChatId mediaUrl' =
     (case fromUrl lib mediaUrl' of
        Inl e \<Rightarrow>
          (sendMessage_session_catch e, [GetNumberId formattedPhone, FromUrl mediaUrl'])
      | Inr media \<Rightarrow>
          (case sendMessage_media lib validChatId media (content request) of
             Inl e \<Rightarrow>
               (sendMessage_session_catch e,
                [GetNumberId formattedPhone, FromUrl mediaUrl',
                 SendMessageMedia validChatId media (content request)])
           | Inr sentMessage \<Rightarrow>
               (sent sentMessage,
                [GetNumberId formattedPhone, FromUrl mediaUrl',
                 SendMessageMedia validChatId media (content request)])))"

definition send_text ::
  "library \<Rightarrow> session_request \<Rightarrow> string \<Rightarrow> string \<Rightarrow> send_result \<times> library_call list" where
  "send_text lib request formattedPhone validChatId =
     (case sendMessage_text lib validChatId (content request) of
        Inl e \<Rightarrow>
          (sendMessage_session_catch e,
           [GetNumberId formattedPhone, SendMessageText validChatId (content request)])
      | Inr sentMessage \<Rightarrow>
          (sent sentMessage,
           [GetNumberId formattedPhone, SendMessageText validChatId (content request)]))"

text \<open>
  \<^verbatim>\<open>sendMessage\<close> of the session service: the result, the calls made on the
  library, and the service's fields afterwards (the function assigns none of them).
\<close>

definition sendMessage_session ::
  "session_service \<Rightarrow> library \<Rightarrow> session_request
     \<Rightarrow> send_result outcome \<times> library_call list \<times> session_service" where
  "sendMessage_session this lib request =
     (if client this = None \<or> \<not> isReady this then
        (Fulfilled \<lparr>success = False, messageId = Undefined, error = Str not_connected\<rparr>, [],
         this)
      else
        let formattedPhone = replace_non_digits (recipientPhone request);
            unregistered =
              (Fulfilled \<lparr>success = False, messageId = Undefined,
                 error = Str (not_registered (recipientPhone request))\<rparr>,
               [GetNumberId formattedPhone], this)
        in
        case getNumberId lib formattedPhone of
          Inl e \<Rightarrow> (Fulfilled (sendMessage_session_catch e), [GetNumberId formattedPhone], this)
        | Inr None \<Rightarrow> unregistered
        | Inr (Some numberId) \<Rightarrow>
            if serialized numberId = [] then unregistered
            else
              let validChatId = serialized numberId;
                  (result, calls) =
                    (case mediaUrl request of
                       Some mediaUrl' \<Rightarrow>
                         if mediaUrl' \<noteq> [] then
                           send_media lib request formattedPhone validChatId mediaUrl'
                         else send_text lib request formattedPhone validChatId
                     | None \<Rightarrow> send_text lib request formattedPhone validChatId)
              in (Fulfilled result, calls, this))"

subsection \<open>disconnect\<close>

definition disconnect ::
  "session_service \<Rightarrow> library \<Rightarrow> unit outcome \<times> library_call list \<times> session_service" where
  "disconnect this lib =
     (if client this = None then (Fulfilled (), [], this)
      else
        case logout lib of
          Inl e \<Rightarrow> (Rejected e, [Logout], this)
        | Inr _ \<Rightarrow>
            (case destroy lib of
               Inl e \<Rightarrow> (Rejected e, [Logout, Destroy], this)
             | Inr _ \<Rightarrow>
                 (Fulfilled (), [Logout, Destroy],
                  this\<lparr>client := None, isReady := False, qrCodeData := None,
                       phoneNumber := None\<rparr>)))"

text \<open>The fields \<^verbatim>\<open>disconnect\<close> assigns after a successful teardown.\<close>

definition reset :: "session_service \<Rightarrow> session_service" where
  "reset this = this\<lparr>client := None, isReady := False, qrCodeData := None, phoneNumber := None\<rparr>"

text \<open>
  \<^verbatim>\<open>disconnect()\<close> stops at two \<^verbatim>\<open>await\<close>s, and other code can run while it is
  stopped. These are its three uninterrupted parts, each reading the fields as they are
  when it runs. A part gives \<^const>\<open>None\<close> while the call is still suspended. When the
  client is gone by the time \<^verbatim>\<open>this.client.destroy()\<close> is evaluated, that throws a
  TypeError, which the \<^verbatim>\<open>catch\<close> block rethrows. Only the last part assigns fields.
\<close>

definition no_client_to_destroy :: js_error where
  "no_client_to_destroy =
     \<lparr>err_message = ''Cannot read properties of null (reading 'destroy')'',
      err_response_error = None\<rparr>"

definition disconnect_start :: "session_service \<Rightarrow> unit outcome option \<times> library_call list" where
  "disconnect_start this =
     (if client this = None then (Some (Fulfilled ()), []) else (None, [Logout]))"

definition disconnect_after_logout ::
  "js_error + unit \<Rightarrow> session_service \<Rightarrow> unit outcome option \<times> library_call list" where
  "disconnect_after_logout r this =
     (case r of
        Inl e \<Rightarrow> (Some (Rejected e), [])
      | Inr _ \<Rightarrow>
          if client this = None then (Some (Rejected no_client_to_destroy), [])
          else (None, [Destroy]))"

definition disconnect_after_destroy ::
  "js_error + unit \<Rightarrow> session_service \<Rightarrow> unit outcome \<times> session_service" where
  "disconnect_after_destroy r this =
     (case r of
        Inl e \<Rightarrow> (Rejected e, this)
      | Inr _ \<Rightarrow> (Fulfilled (), reset this))"

subsection \<open>The service in its event loop\<close>

text \<open>
  What can happen to the singleton, one uninterrupted step at a time: a call of
  \<^verbatim>\<open>initialize()\<close> runs up to its \<^verbatim>\<open>await\<close>; the promise of a suspended call
  settles; a call of \<^verbatim>\<open>disconnect()\<close> runs up to its first \<^verbatim>\<open>await\<close>, resumes after
  \<^verbatim>\<open>logout\<close>, resumes after \<^verbatim>\<open>destroy\<close>; the library fires one of the
  registered callbacks. These are all the places where a field of the service is
  assigned: \<^verbatim>\<open>sendMessage\<close>, \<^verbatim>\<open>getStatus\<close> and \<^verbatim>\<open>getQRCode\<close> assign none.
  \<^verbatim>\<open>pending\<close> counts the calls of \<^verbatim>\<open>initialize()\<close> suspended at their
  \<^verbatim>\<open>await\<close>, \<^verbatim>\<open>logging_out\<close> and \<^verbatim>\<open>destroying\<close> count the calls of
  \<^verbatim>\<open>disconnect()\<close> suspended at their first and second \<^verbatim>\<open>await\<close>, and
  \<^verbatim>\<open>traffic\<close> logs the calls made on the library. A callback can fire only once a
  client has registered it, and a promise can settle only when a call is suspended on
  it; otherwise the event does not occur.
\<close>

record system =
  service :: session_service
  pending :: nat
  logging_out :: nat
  destroying :: nat
  traffic :: "library_call list"

datatype event =
  CallInitialize
  | Settled "js_error + unit"
  | CallDisconnect
  | LogoutSettled "js_error + unit"
  | DestroySettled "js_error + unit"
  | Qr string
  | Authenticated
  | Ready "string option"
  | Disconnected string
  | AuthFailure string

definition new_system :: system where
  "new_system =
     \<lparr>service = new_session_service, pending = 0, logging_out = 0, destroying = 0,
      traffic = []\<rparr>"

definition callback :: "(session_service \<Rightarrow> session_service) \<Rightarrow> system \<Rightarrow> system" where
  "callback f sys =
     (if NewClient \<in> set (traffic sys) then sys\<lparr>service := f (service sys)\<rparr> else sys)"

fun step :: "system \<Rightarrow> event \<Rightarrow> system" where
  "step sys CallInitialize =
     (case initialize (service sys) of
        (Returned, this, calls) \<Rightarrow> sys\<lparr>service := this, traffic := traffic sys @ calls\<rparr>
      | (Awaiting, this, calls) \<Rightarrow>
          sys\<lparr>service := this, pending := Suc (pending sys), traffic := traffic sys @ calls\<rparr>)"
| "step sys (Settled r) =
     (if pending sys = 0 then sys
      else sys\<lparr>service := snd (initialize_settled r (service sys)),
               pending := pending sys - 1\<rparr>)"
| "step sys CallDisconnect =
     (case disconnect_start (service sys) of
        (Some ended, calls) \<Rightarrow> sys\<lparr>traffic := traffic sys @ calls\<rparr>
      | (None, calls) \<Rightarrow>
          sys\<lparr>logging_out := Suc (logging_out sys), traffic := traffic sys @ calls\<rparr>)"
| "step sys (LogoutSettled r) =
     (if logging_out sys = 0 then sys
      else
        case disconnect_after_logout r (service sys) of
          (Some ended, calls) \<Rightarrow>
            sys\<lparr>logging_out := logging_out sys - 1, traffic := traffic sys @ calls\<rparr>
        | (None, calls) \<Rightarrow>
            sys\<lparr>logging_out := logging_out sys - 1, destroying := Suc (destroying sys),
                traffic := traffic sys @ calls\<rparr>)"
| "step sys (DestroySettled r) =
     (if destroying sys = 0 then sys
      else sys\<lparr>service := snd (disconnect_after_destroy r (service sys)),
               destroying := destroying sys - 1\<rparr>)"
| "step sys (Qr qr) = callback (on_qr qr) sys"
| "step sys Authenticated = callback on_authenticated sys"
| "step sys (Ready info) = callback (on_ready info) sys"
| "step sys (Disconnected reason) = callback (on_disconnected reason) sys"
| "step sys (AuthFailure msg) = callback (on_auth_failure msg) sys"

definition run :: "system \<Rightarrow> event list \<Rightarrow> system" where
  "run sys events = foldl step sys events"

definition constructed :: "system \<Rightarrow> nat" where
  "constructed sys = count_list (traffic sys) NewClient"

text \<open>
  The two guards at the head of \<^verbatim>\<open>initialize()\<close>: the service is ready with a
  client, or an initialization has been started and not ended.
\<close>

definition guarded :: "session_service \<Rightarrow> bool" where
  "guarded this = ((client this \<noteq> None \<and> isReady this) \<or> isInitializing this)"

text \<open>
  The events that take a guard away: the \<^verbatim>\<open>auth_failure\<close> callback clears
  \<^verbatim>\<open>isInitializing\<close>, the \<^verbatim>\<open>disconnected\<close> callback clears \<^verbatim>\<open>isReady\<close>, and
  the last part of a \<^verbatim>\<open>disconnect()\<close> whose teardown succeeded clears the client and
  \<^verbatim>\<open>isReady\<close>. Every other event keeps a guard that holds.
\<close>

fun keeps_guard :: "event \<Rightarrow> bool" where
  "keeps_guard (AuthFailure msg) = False"
| "keeps_guard (Disconnected reason) = False"
| "keeps_guard (DestroySettled (Inr done)) = False"
| "keeps_guard _ = True"

text \<open>
  A run is undisturbed when none of those events happens while a call of
  \<^verbatim>\<open>initialize()\<close> is suspended.
\<close>

fun undisturbed :: "system \<Rightarrow> event list \<Rightarrow> bool" where
  "undisturbed sys [] = True"
| "undisturbed sys (e # events) =
     ((pending sys = 0 \<or> keeps_guard e) \<and> undisturbed (step sys e) events)"

text \<open>
  At most one call of \<^verbatim>\<open>initialize()\<close> is suspended, and while one is, the service
  has a client and one of its two flags set.
\<close>

definition single_flight :: "system \<Rightarrow> bool" where
  "single_flight sys =
     (pending sys \<le> 1
      \<and> (pending sys = 1 \<longrightarrow>
           client (service sys) \<noteq> None
           \<and> (isInitializing (service sys) \<or> isReady (service sys))))"

section \<open>Reading results and payloads\<close>



section \<open>Example values\<close>

definition example_service :: cloud_service where
  "example_service =
     \<lparr>apiUrl = ''https://graph.facebook.com/v18.0'', accessToken = ''token'',
      phoneNumberId = ''1234567890'', businessAccountId = ''''\<rparr>"

definition unconfigured_service :: cloud_service where
  "unconfigured_service =
     \<lparr>apiUrl = ''https://graph.facebook.com/v18.0'', accessToken = '''',
      phoneNumberId = '''', businessAccountId = ''''\<rparr>"

definition accepting_provider :: provider where
  "accepting_provider = (\<lambda>call. Inr \<lparr>messages = Some [\<lparr>msg_id = Str ''wamid.1''\<rparr>]\<rparr>)"

text \<open>A provider whose answer is \<^verbatim>\<open>{messages: [{}]}\<close>.\<close>

definition idless_provider :: provider where
  "idless_provider = (\<lambda>call. Inr \<lparr>messages = Some [\<lparr>msg_id = Undefined\<rparr>]\<rparr>)"


definition unreachable_provider :: provider where
  "unreachable_provider =
     (\<lambda>call. Inl \<lparr>err_message = ''Network Error'', err_response_error = None\<rparr>)"

definition example_request :: cloud_request where
  "example_request =
     \<lparr>recipientPhone = ''11999999999'', recipientName = None, message = ''hi'',
      linkUrl = Some ''https://x.com'', linkPreview = None\<rparr>"


definition ready_service :: session_service where
  "ready_service =
     \<lparr>client = Some Client, isInitializing = False, qrCodeData = None, isReady = True,
      phoneNumber = Some ''5511888888888''\<rparr>"

definition initializing_service :: session_service where
  "initializing_service =
     \<lparr>client = Some Client, isInitializing = True, qrCodeData = Some ''2@abc'',
      isReady = False, phoneNumber = None\<rparr>"

definition example_library :: library where
  "example_library =
     \<lparr>getNumberId = (\<lambda>number. Inr (Some \<lparr>serialized = number @ ''@c.us''\<rparr>)),
      fromUrl = (\<lambda>address. Inr (MessageMedia address)),
      sendMessage_text = (\<lambda>chat body. Inr \<lparr>id_serialized = ''true_'' @ chat @ ''_3EB0''\<rparr>),
      sendMessage_media =
        (\<lambda>chat file caption. Inr \<lparr>id_serialized = ''true_'' @ chat @ ''_3EB1''\<rparr>),
      logout = Inr (),
      destroy = Inr ()\<rparr>"

definition unknown_number_library :: library where
  "unknown_number_library = example_library\<lparr>getNumberId := (\<lambda>number. Inr None)\<rparr>"

definition blank_identifier_library :: library where
  "blank_identifier_library =
     example_library\<lparr>getNumberId := (\<lambda>number. Inr (Some \<lparr>serialized = ''''\<rparr>))\<rparr>"

definition failing_logout_library :: library where
  "failing_logout_library =
     example_library\<lparr>logout :=
       Inl \<lparr>err_message = ''Session closed'', err_response_error = None\<rparr>\<rparr>"

definition failing_destroy_library :: library where
  "failing_destroy_library =
     example_library\<lparr>destroy :=
       Inl \<lparr>err_message = ''Target closed'', err_response_error = None\<rparr>\<rparr>"

definition example_session_request :: session_request where
  "example_session_request =
     \<lparr>recipientPhone = ''(11) 99999-9999'', recipientName = None, content = ''hi'',
      mediaUrl = None\<rparr>"

definition media_request :: session_request where
  "media_request =
     \<lparr>recipientPhone = ''(11) 99999-9999'', recipientName = None, content = ''hi'',
      mediaUrl = Some ''https://x.com/exam.pdf''\<rparr>"

definition quiet_events :: "event list" where
  "quiet_events =
     [CallInitialize, Qr ''2@abc'', CallInitialize, CallDisconnect, Authenticated,
      Ready (Some ''5511888888888''), CallInitialize, Settled (Inr ()),
      LogoutSettled (Inr ()), DestroySettled (Inr ()), AuthFailure ''logged out'',
      CallInitialize, CallInitialize]"

section \<open>Properties of the phone normalisation\<close>

lemma startsWith_zero: "startsWith s ''0'' = (\<exists>cs. s = CHR ''0'' # cs)"
  by (cases s) (auto simp: startsWith_def)

lemma drop_one_leading_zero_eq:
  "drop_one_leading_zero s = (if startsWith s ''0'' then substring s 1 else s)"
  by (cases s) (auto simp: startsWith_def substring_def)

lemma replace_non_digits_idem [simp]:
  "replace_non_digits (replace_non_digits s) = replace_non_digits s"
  by (simp add: replace_non_digits_def)

lemma replace_non_digits_append:
  "replace_non_digits (a @ b) = replace_non_digits a @ replace_non_digits b"
  by (simp add: replace_non_digits_def)

lemma replace_non_digits_drop:
  "replace_non_digits (drop n (replace_non_digits s)) = drop n (replace_non_digits s)"
  unfolding replace_non_digits_def
  by (rule filter_True) (auto dest: in_set_dropD)

lemma is_digit_5 [simp]: "is_digit CHR ''5''"
  by (simp add: is_digit_def)

lemma replace_non_digits_Cons:
  "replace_non_digits (c # cs) =
     (if is_digit c then c # replace_non_digits cs else replace_non_digits cs)"
  by (simp add: replace_non_digits_def)

lemma formatPhoneNumber_digits:
  "replace_non_digits (formatPhoneNumber x) = formatPhoneNumber x"
  by (simp add: formatPhoneNumber_def Let_def substring_def replace_non_digits_drop
      replace_non_digits_Cons)

text \<open>
  C1. For every input string, \<^const>\<open>formatPhoneNumber\<close> computes exactly what the
  specification describes (strip the non-digits, drop one leading 0, prefix 55 when at
  most 11 digits remain), and the four documented examples all give 5511999999999; in
  the last one the leading zero is dropped first and the 13 remaining digits are then
  too long to be prefixed.
\<close>

theorem formatPhoneNumber_refines_spec:
  "formatPhoneNumber p = normalize_spec p
   \<and> formatPhoneNumber ''11999999999'' = ''5511999999999''
   \<and> formatPhoneNumber ''+55 11 99999-9999'' = ''5511999999999''
   \<and> formatPhoneNumber ''(11) 99999-9999'' = ''5511999999999''
   \<and> formatPhoneNumber ''05511999999999'' = ''5511999999999''"
proof -
  have "formatPhoneNumber p = normalize_spec p"
    by (simp add: formatPhoneNumber_def normalize_spec_def Let_def
        drop_one_leading_zero_eq replace_non_digits_def)
  moreover have "formatPhoneNumber ''11999999999'' = ''5511999999999''"
    by (simp add: formatPhoneNumber_def replace_non_digits_def is_digit_def
        startsWith_def substring_def)
  moreover have "formatPhoneNumber ''+55 11 99999-9999'' = ''5511999999999''"
    by (simp add: formatPhoneNumber_def replace_non_digits_def is_digit_def
        startsWith_def substring_def)
  moreover have "formatPhoneNumber ''(11) 99999-9999'' = ''5511999999999''"
    by (simp add: formatPhoneNumber_def replace_non_digits_def is_digit_def
        startsWith_def substring_def)
  moreover have "formatPhoneNumber ''05511999999999'' = ''5511999999999''"
    by (simp add: formatPhoneNumber_def replace_non_digits_def is_digit_def
        startsWith_def substring_def)
  ultimately show ?thesis by blast
qed

text \<open>
  C2, as stated, fails. A number written with the international call prefix 00 keeps
  one of its two zeros: 0055 11 99999-9999 is normalised to the 14 digits
  05511999999999, which is past the threshold of 11, and normalising that again drops
  the remaining zero.
\<close>

theorem formatPhoneNumber_not_idempotent:
  "11 < length (formatPhoneNumber ''0055 11 99999-9999'')
   \<and> formatPhoneNumber (formatPhoneNumber ''0055 11 99999-9999'')
       \<noteq> formatPhoneNumber ''0055 11 99999-9999''"
  by (simp add: formatPhoneNumber_def replace_non_digits_def is_digit_def
      startsWith_def substring_def)

text \<open>
  C2, amended. For every input whose normalised form is longer than 11 and does not
  begin with 0, normalising a second time changes nothing: no country code is added
  again.
\<close>

theorem formatPhoneNumber_idempotent:
  assumes "11 < length (formatPhoneNumber x)"
    and "\<not> startsWith (formatPhoneNumber x) ''0''"
  shows "formatPhoneNumber (formatPhoneNumber x) = formatPhoneNumber x"
proof -
  let ?y = "formatPhoneNumber x"
  have "formatPhoneNumber ?y =
      (let formatted = ?y;
           formatted = (if startsWith formatted ''0'' then substring formatted 1 else formatted);
           formatted = (if length formatted \<le> 11 then ''55'' @ formatted else formatted)
       in formatted)"
    unfolding formatPhoneNumber_def [of ?y] formatPhoneNumber_digits ..
  with assms show ?thesis
    by (simp add: Let_def)
qed

theorem formatPhoneNumber_idempotent_witness:
  "11 < length (formatPhoneNumber ''(11) 99999-9999'')
   \<and> \<not> startsWith (formatPhoneNumber ''(11) 99999-9999'') ''0''
   \<and> formatPhoneNumber (formatPhoneNumber ''(11) 99999-9999'') = ''5511999999999''"
proof -
  have v: "formatPhoneNumber ''(11) 99999-9999'' = ''5511999999999''"
    by (simp add: formatPhoneNumber_def replace_non_digits_def is_digit_def
        startsWith_def substring_def)
  have l: "11 < length (formatPhoneNumber ''(11) 99999-9999'')"
    by (simp add: v)
  have z: "\<not> startsWith (formatPhoneNumber ''(11) 99999-9999'') ''0''"
    by (simp add: v startsWith_def)
  from formatPhoneNumber_idempotent [OF l z] l z show ?thesis
    by (simp add: v)
qed

text \<open>
  C4, as stated, fails: the empty string has no digits, so its length 0 is at most 11
  and the country code is put in front of nothing.
\<close>

theorem formatPhoneNumber_empty_not_empty: "formatPhoneNumber '''' \<noteq> ''''"
  by (simp add: formatPhoneNumber_def replace_non_digits_def startsWith_def)

text \<open>
  C4, amended. The phone normalisation maps the empty string to the bare country code
  55.
\<close>

theorem formatPhoneNumber_empty: "formatPhoneNumber '''' = ''55''"
  by (simp add: formatPhoneNumber_def replace_non_digits_def startsWith_def)

section \<open>Properties of the results\<close>

lemma truthy_defined: "truthy v \<Longrightarrow> v \<noteq> Undefined"
  by (cases v) simp_all

lemma sendMessage_catch_fails [simp]:
  "\<not> success (sendMessage_catch e)"
  "messageId (sendMessage_catch e) = Undefined"
  "error (sendMessage_catch e) \<noteq> Undefined"
  by (simp_all add: sendMessage_catch_def Let_def)

lemma sendTemplateMessage_catch_fails [simp]:
  "\<not> success (sendTemplateMessage_catch e)"
  "messageId (sendTemplateMessage_catch e) = Undefined"
  "error (sendTemplateMessage_catch e) \<noteq> Undefined"
  by (auto simp: sendTemplateMessage_catch_def dest: truthy_defined split: option.split)

lemma sendMessage_session_catch_fails [simp]:
  "\<not> success (sendMessage_session_catch e)"
  "messageId (sendMessage_session_catch e) = Undefined"
  "error (sendMessage_session_catch e) \<noteq> Undefined"
  by (simp_all add: sendMessage_session_catch_def)

lemma sendMessage_cloud_shape:
  "\<exists>r. fst (sendMessage_cloud this post request) = Fulfilled r
     \<and> (success r \<longrightarrow>
          error r = Undefined
          \<and> (\<exists>call response first rest.
                snd (sendMessage_cloud this post request) = [call]
                \<and> post call = Inr response
                \<and> messages response = Some (first # rest)
                \<and> messageId r = msg_id first))
     \<and> (\<not> success r \<longrightarrow> error r \<noteq> Undefined \<and> messageId r = Undefined)"
  by (auto simp: sendMessage_cloud_def Let_def first_message_id_def
      split: sum.split option.split list.split)

lemma sendTemplateMessage_shape:
  "\<exists>r. fst (sendTemplateMessage this post phone templateName languageCode parameters)
         = Fulfilled r
     \<and> (success r \<longrightarrow>
          error r = Undefined
          \<and> (\<exists>call response first rest.
                snd (sendTemplateMessage this post phone templateName languageCode parameters)
                  = [call]
                \<and> post call = Inr response
                \<and> messages response = Some (first # rest)
                \<and> messageId r = msg_id first))
     \<and> (\<not> success r \<longrightarrow> error r \<noteq> Undefined \<and> messageId r = Undefined)"
  by (auto simp: sendTemplateMessage_def Let_def first_message_id_def
      split: sum.split option.split list.split)

lemma send_media_shape:
  "(success (fst (send_media lib request d c u)) \<longrightarrow>
      messageId (fst (send_media lib request d c u)) \<noteq> Undefined
      \<and> error (fst (send_media lib request d c u)) = Undefined)
   \<and> (\<not> success (fst (send_media lib request d c u)) \<longrightarrow>
      error (fst (send_media lib request d c u)) \<noteq> Undefined
      \<and> messageId (fst (send_media lib request d c u)) = Undefined)"
  by (simp add: send_media_def sent_def split: sum.split)

lemma send_text_shape:
  "(success (fst (send_text lib request d c)) \<longrightarrow>
      messageId (fst (send_text lib request d c)) \<noteq> Undefined
      \<and> error (fst (send_text lib request d c)) = Undefined)
   \<and> (\<not> success (fst (send_text lib request d c)) \<longrightarrow>
      error (fst (send_text lib request d c)) \<noteq> Undefined
      \<and> messageId (fst (send_text lib request d c)) = Undefined)"
  by (simp add: send_text_def sent_def split: sum.split)

lemma sendMessage_session_shape:
  "\<exists>r. fst (sendMessage_session this lib request) = Fulfilled r
     \<and> (success r \<longrightarrow> messageId r \<noteq> Undefined \<and> error r = Undefined)
     \<and> (\<not> success r \<longrightarrow> error r \<noteq> Undefined \<and> messageId r = Undefined)"
  using send_media_shape send_text_shape
  by (auto simp: sendMessage_session_def Let_def split_beta split: sum.split option.split)

lemma formatPhoneNumber_example: "formatPhoneNumber ''11999999999'' = ''5511999999999''"
  by (simp add: formatPhoneNumber_def replace_non_digits_def is_digit_def
      startsWith_def substring_def)

lemma isConfigured_example: "isConfigured example_service"
  by (simp add: isConfigured_def example_service_def)

lemma sendMessage_cloud_example:
  "fst (sendMessage_cloud example_service accepting_provider example_request) =
     Fulfilled \<lparr>success = True, messageId = Str ''wamid.1'', error = Undefined\<rparr>"
  by (simp add: sendMessage_cloud_def isConfigured_example accepting_provider_def Let_def
      first_message_id_def)

lemma sendTemplateMessage_example:
  "fst (sendTemplateMessage example_service unreachable_provider ''11999999999''
         ''exam_ready'' None None)
     = Fulfilled \<lparr>success = False, messageId = Undefined, error = Str ''Network Error''\<rparr>"
  by (simp add: sendTemplateMessage_def isConfigured_example unreachable_provider_def Let_def
      sendTemplateMessage_catch_def)

text \<open>
  C3, as stated, fails: the message id of a success is whatever
  \<^verbatim>\<open>response.data.messages[0].id\<close> holds. When the provider answers
  \<^verbatim>\<open>{messages: [{}]}\<close>, the result is a success whose message id is absent.
\<close>

theorem success_without_message_id:
  "fst (sendMessage_cloud example_service idless_provider example_request) =
     Fulfilled \<lparr>success = True, messageId = Undefined, error = Undefined\<rparr>"
  by (simp add: sendMessage_cloud_def isConfigured_example idless_provider_def Let_def
      first_message_id_def)

text \<open>
  C3, amended. Every call of \<^const>\<open>sendMessage_cloud\<close>, \<^const>\<open>sendTemplateMessage\<close> and
  \<^const>\<open>sendMessage_session\<close> ends with a fulfilled promise. When \<^const>\<open>success\<close> is false,
  the error is present and the message id absent. When it is true, the error is absent;
  the message id of the session service is present, and the message id of the Cloud-API
  service is the id of the first message of the provider's answer to the one call made,
  so it is present whenever that message has an id.
\<close>

theorem results_are_well_formed:
  "(\<exists>r. fst (sendMessage_cloud this post request) = Fulfilled r
      \<and> (success r \<longrightarrow>
           error r = Undefined
           \<and> (\<exists>call response first rest.
                 snd (sendMessage_cloud this post request) = [call]
                 \<and> post call = Inr response
                 \<and> messages response = Some (first # rest)
                 \<and> messageId r = msg_id first))
      \<and> (\<not> success r \<longrightarrow> error r \<noteq> Undefined \<and> messageId r = Undefined))
   \<and> (\<exists>r. fst (sendTemplateMessage this post phone templateName languageCode parameters)
           = Fulfilled r
      \<and> (success r \<longrightarrow>
           error r = Undefined
           \<and> (\<exists>call response first rest.
                 snd (sendTemplateMessage this post phone templateName languageCode parameters)
                   = [call]
                 \<and> post call = Inr response
                 \<and> messages response = Some (first # rest)
                 \<and> messageId r = msg_id first))
      \<and> (\<not> success r \<longrightarrow> error r \<noteq> Undefined \<and> messageId r = Undefined))
   \<and> (\<exists>r. fst (sendMessage_session session lib session_request) = Fulfilled r
      \<and> (success r \<longrightarrow> messageId r \<noteq> Undefined \<and> error r = Undefined)
      \<and> (\<not> success r \<longrightarrow> error r \<noteq> Undefined \<and> messageId r = Undefined))"
  using sendMessage_cloud_shape [of this post request]
    sendTemplateMessage_shape [of this post phone templateName languageCode parameters]
    sendMessage_session_shape [of session lib session_request]
  by blast

theorem results_are_well_formed_witness:
  "fst (sendMessage_cloud example_service accepting_provider example_request)
     = Fulfilled \<lparr>success = True, messageId = Str ''wamid.1'', error = Undefined\<rparr>
   \<and> success \<lparr>success = True, messageId = Str ''wamid.1'', error = Undefined\<rparr>
   \<and> map accepting_provider
         (snd (sendMessage_cloud example_service accepting_provider example_request))
       = [Inr \<lparr>messages = Some [\<lparr>msg_id = Str ''wamid.1''\<rparr>]\<rparr>]
   \<and> fst (sendTemplateMessage example_service unreachable_provider ''11999999999''
         ''exam_ready'' None None)
       = Fulfilled \<lparr>success = False, messageId = Undefined, error = Str ''Network Error''\<rparr>
   \<and> \<not> success \<lparr>success = False, messageId = Undefined, error = Str ''Network Error''\<rparr>
   \<and> error \<lparr>success = False, messageId = Undefined, error = Str ''Network Error''\<rparr>
       \<noteq> Undefined"
proof -
  from results_are_well_formed [of example_service accepting_provider example_request]
  obtain r where
    r: "fst (sendMessage_cloud example_service accepting_provider example_request) = Fulfilled r"
    and ok: "success r \<longrightarrow>
           error r = Undefined
           \<and> (\<exists>call response first rest.
                 snd (sendMessage_cloud example_service accepting_provider example_request)
                   = [call]
                 \<and> accepting_provider call = Inr response
                 \<and> messages response = Some (first # rest)
                 \<and> messageId r = msg_id first)"
    by blast
  from r have r': "r = \<lparr>success = True, messageId = Str ''wamid.1'', error = Undefined\<rparr>"
    by (simp add: sendMessage_cloud_example)
  from ok obtain call where
    "snd (sendMessage_cloud example_service accepting_provider example_request) = [call]"
    unfolding r' by auto
  then have calls: "map accepting_provider
         (snd (sendMessage_cloud example_service accepting_provider example_request))
       = [Inr \<lparr>messages = Some [\<lparr>msg_id = Str ''wamid.1''\<rparr>]\<rparr>]"
    by (simp add: accepting_provider_def)
  from results_are_well_formed
    [of example_service unreachable_provider _ "''11999999999''" "''exam_ready''" None None]
  obtain t where
    t: "fst (sendTemplateMessage example_service unreachable_provider ''11999999999''
         ''exam_ready'' None None) = Fulfilled t"
    and bad: "\<not> success t \<longrightarrow> error t \<noteq> Undefined \<and> messageId t = Undefined"
    by blast
  from t have t': "t = \<lparr>success = False, messageId = Undefined, error = Str ''Network Error''\<rparr>"
    by (simp add: sendTemplateMessage_example)
  from r t calls bad show ?thesis
    unfolding r' t' by simp
qed

section \<open>Properties of a dispatcher that cannot send\<close>

text \<open>
  C5. When the access token or the phone-number id of the Cloud-API service is empty,
  \<^const>\<open>sendMessage_cloud\<close> and \<^const>\<open>sendTemplateMessage\<close> are fulfilled (they do not
  throw) with a failure carrying the configuration message, and make no call to the
  provider. When the session service has no client or is not ready,
  \<^const>\<open>sendMessage_session\<close> is fulfilled with a failure carrying the not-connected
  message, makes no call on the library and leaves every field of the service as it was.
  The Cloud-API service has no field that is assigned after construction.
\<close>

theorem unready_dispatchers_fail_fast:
  "(accessToken this = [] \<or> phoneNumberId this = [] \<longrightarrow>
      sendMessage_cloud this post request =
        (Fulfilled \<lparr>success = False, messageId = Undefined, error = Str not_configured_send\<rparr>, [])
      \<and> sendTemplateMessage this post phone templateName languageCode parameters =
        (Fulfilled \<lparr>success = False, messageId = Undefined, error = Str not_configured_template\<rparr>,
         []))
   \<and> (client session = None \<or> \<not> isReady session \<longrightarrow>
      sendMessage_session session lib session_request =
        (Fulfilled \<lparr>success = False, messageId = Undefined, error = Str not_connected\<rparr>, [],
         session))"
  by (auto simp: sendMessage_cloud_def sendTemplateMessage_def sendMessage_session_def
      isConfigured_def)

theorem unready_dispatchers_fail_fast_witness:
  "accessToken unconfigured_service = []
   \<and> client new_session_service = None
   \<and> sendMessage_cloud unconfigured_service accepting_provider example_request =
        (Fulfilled \<lparr>success = False, messageId = Undefined, error = Str not_configured_send\<rparr>, [])
   \<and> sendTemplateMessage unconfigured_service accepting_provider ''11999999999''
        ''exam_ready'' None None =
        (Fulfilled \<lparr>success = False, messageId = Undefined, error = Str not_configured_template\<rparr>,
         [])
   \<and> sendMessage_session new_session_service example_library example_session_request =
        (Fulfilled \<lparr>success = False, messageId = Undefined, error = Str not_connected\<rparr>, [],
         new_session_service)"
proof -
  have a: "accessToken unconfigured_service = []"
    by (simp add: unconfigured_service_def)
  have c: "client new_session_service = None"
    by (simp add: new_session_service_def)
  from a c
    unready_dispatchers_fail_fast [of unconfigured_service accepting_provider example_request
      "''11999999999''" "''exam_ready''" None None new_session_service example_library
      example_session_request]
  show ?thesis by blast
qed

section \<open>Properties of sending through the Cloud API\<close>






lemma rendering_examples:
  "number_to_string (Finite False 1 22) = ''1e+21''"
  "number_to_string (Finite False 15 1) = ''1.5''"
  "to_string Undefined = ''undefined''"
    apply code_simp
   apply code_simp
  apply simp
  done

lemma sendMessage_catch_without_code:
  "sendMessage_catch
     \<lparr>err_message = ''Request failed with status code 400'',
      err_response_error = Some \<lparr>pe_message = Str ''Bad request'', pe_code = Undefined\<rparr>\<rparr>
   = \<lparr>success = False, messageId = Undefined,
      error = Str ''WhatsApp API Error: Bad request (Code: undefined)''\<rparr>"
  by (simp add: sendMessage_catch_def)

section \<open>Properties of sending through a session\<close>

lemma replace_non_digits_example: "replace_non_digits ''(11) 99999-9999'' = ''11999999999''"
  by (simp add: replace_non_digits_def is_digit_def)

text \<open>
  C7. In the ready state \<^const>\<open>sendMessage_session\<close> first looks up the digits of the
  recipient's phone, and assigns no field of the service. When the lookup gives nothing
  (null, or an identifier whose \<^verbatim>\<open>_serialized\<close> is empty), the result is the
  number-not-registered failure and the lookup is the only call made. When the lookup
  gives an identifier, a request with a media address has the media fetched from that
  address and sent with the content as caption, and a request without one has the
  content sent as text; when the send succeeds the result is a success with the id of
  the sent message. A media address is there when \<^verbatim>\<open>mediaUrl\<close> is a non-empty
  string, which is the test of the source and all that the routes let through.
\<close>

theorem sendMessage_session_ready:
  assumes "client this \<noteq> None" and "isReady this"
  shows "(\<exists>rest. fst (snd (sendMessage_session this lib request)) =
            GetNumberId (replace_non_digits (recipientPhone request)) # rest)
     \<and> snd (snd (sendMessage_session this lib request)) = this
     \<and> (getNumberId lib (replace_non_digits (recipientPhone request)) = Inr None \<longrightarrow>
          sendMessage_session this lib request =
            (Fulfilled \<lparr>success = False, messageId = Undefined,
               error = Str (not_registered (recipientPhone request))\<rparr>,
             [GetNumberId (replace_non_digits (recipientPhone request))], this))
     \<and> (\<forall>numberId.
          getNumberId lib (replace_non_digits (recipientPhone request)) = Inr (Some numberId)
          \<and> serialized numberId = [] \<longrightarrow>
          sendMessage_session this lib request =
            (Fulfilled \<lparr>success = False, messageId = Undefined,
               error = Str (not_registered (recipientPhone request))\<rparr>,
             [GetNumberId (replace_non_digits (recipientPhone request))], this))
     \<and> (\<forall>numberId address file sentMessage.
          getNumberId lib (replace_non_digits (recipientPhone request)) = Inr (Some numberId)
          \<and> serialized numberId \<noteq> []
          \<and> mediaUrl request = Some address \<and> address \<noteq> []
          \<and> fromUrl lib address = Inr file
          \<and> sendMessage_media lib (serialized numberId) file (content request) = Inr sentMessage
          \<longrightarrow>
          sendMessage_session this lib request =
            (Fulfilled \<lparr>success = True, messageId = Str (id_serialized sentMessage),
               error = Undefined\<rparr>,
             [GetNumberId (replace_non_digits (recipientPhone request)), FromUrl address,
              SendMessageMedia (serialized numberId) file (content request)], this))
     \<and> (\<forall>numberId sentMessage.
          getNumberId lib (replace_non_digits (recipientPhone request)) = Inr (Some numberId)
          \<and> serialized numberId \<noteq> []
          \<and> (mediaUrl request = None \<or> mediaUrl request = Some [])
          \<and> sendMessage_text lib (serialized numberId) (content request) = Inr sentMessage
          \<longrightarrow>
          sendMessage_session this lib request =
            (Fulfilled \<lparr>success = True, messageId = Str (id_serialized sentMessage),
               error = Undefined\<rparr>,
             [GetNumberId (replace_non_digits (recipientPhone request)),
              SendMessageText (serialized numberId) (content request)], this))"
proof -
  let ?d = "replace_non_digits (recipientPhone request)"
  have 1: "\<exists>rest. fst (snd (sendMessage_session this lib request)) = GetNumberId ?d # rest"
    using assms
    by (auto simp: sendMessage_session_def Let_def split_beta send_media_def send_text_def
        split: sum.split option.split)
  have 2: "snd (snd (sendMessage_session this lib request)) = this"
    by (simp add: sendMessage_session_def Let_def split_beta split: sum.split option.split)
  have 3: "getNumberId lib ?d = Inr None \<longrightarrow>
          sendMessage_session this lib request =
            (Fulfilled \<lparr>success = False, messageId = Undefined,
               error = Str (not_registered (recipientPhone request))\<rparr>,
             [GetNumberId ?d], this)"
    using assms by (auto simp: sendMessage_session_def Let_def)
  have 4: "\<forall>numberId.
          getNumberId lib ?d = Inr (Some numberId) \<and> serialized numberId = [] \<longrightarrow>
          sendMessage_session this lib request =
            (Fulfilled \<lparr>success = False, messageId = Undefined,
               error = Str (not_registered (recipientPhone request))\<rparr>,
             [GetNumberId ?d], this)"
    using assms by (auto simp: sendMessage_session_def Let_def)
  have 5: "\<forall>numberId address file sentMessage.
          getNumberId lib ?d = Inr (Some numberId)
          \<and> serialized numberId \<noteq> []
          \<and> mediaUrl request = Some address \<and> address \<noteq> []
          \<and> fromUrl lib address = Inr file
          \<and> sendMessage_media lib (serialized numberId) file (content request) = Inr sentMessage
          \<longrightarrow>
          sendMessage_session this lib request =
            (Fulfilled \<lparr>success = True, messageId = Str (id_serialized sentMessage),
               error = Undefined\<rparr>,
             [GetNumberId ?d, FromUrl address,
              SendMessageMedia (serialized numberId) file (content request)], this)"
    using assms by (auto simp: sendMessage_session_def Let_def send_media_def sent_def)
  have 6: "\<forall>numberId sentMessage.
          getNumberId lib ?d = Inr (Some numberId)
          \<and> serialized numberId \<noteq> []
          \<and> (mediaUrl request = None \<or> mediaUrl request = Some [])
          \<and> sendMessage_text lib (serialized numberId) (content request) = Inr sentMessage
          \<longrightarrow>
          sendMessage_session this lib request =
            (Fulfilled \<lparr>success = True, messageId = Str (id_serialized sentMessage),
               error = Undefined\<rparr>,
             [GetNumberId ?d, SendMessageText (serialized numberId) (content request)], this)"
    using assms by (auto simp: sendMessage_session_def Let_def send_text_def sent_def)
  from 1 2 3 4 5 6 show ?thesis by blast
qed

theorem sendMessage_session_ready_witness:
  "client ready_service \<noteq> None \<and> isReady ready_service
   \<and> sendMessage_session ready_service example_library media_request =
       (Fulfilled \<lparr>success = True, messageId = Str ''true_11999999999@c.us_3EB1'',
          error = Undefined\<rparr>,
        [GetNumberId ''11999999999'', FromUrl ''https://x.com/exam.pdf'',
         SendMessageMedia ''11999999999@c.us'' (MessageMedia ''https://x.com/exam.pdf'') ''hi''],
        ready_service)
   \<and> sendMessage_session ready_service example_library example_session_request =
       (Fulfilled \<lparr>success = True, messageId = Str ''true_11999999999@c.us_3EB0'',
          error = Undefined\<rparr>,
        [GetNumberId ''11999999999'', SendMessageText ''11999999999@c.us'' ''hi''],
        ready_service)
   \<and> sendMessage_session ready_service unknown_number_library media_request =
       (Fulfilled \<lparr>success = False, messageId = Undefined,
          error = Str (not_registered ''(11) 99999-9999'')\<rparr>,
        [GetNumberId ''11999999999''], ready_service)
   \<and> sendMessage_session ready_service blank_identifier_library media_request =
       (Fulfilled \<lparr>success = False, messageId = Undefined,
          error = Str (not_registered ''(11) 99999-9999'')\<rparr>,
        [GetNumberId ''11999999999''], ready_service)"
proof -
  have c: "client ready_service \<noteq> None" and r: "isReady ready_service"
    by (simp_all add: ready_service_def)
  note known = sendMessage_session_ready [OF c r, of example_library media_request]
  note textual = sendMessage_session_ready [OF c r, of example_library example_session_request]
  note unknown = sendMessage_session_ready [OF c r, of unknown_number_library media_request]
  note blank = sendMessage_session_ready [OF c r, of blank_identifier_library media_request]
  have d: "replace_non_digits (recipientPhone media_request) = ''11999999999''"
    by (simp add: media_request_def replace_non_digits_def is_digit_def)
  have d': "replace_non_digits (recipientPhone example_session_request) = ''11999999999''"
    by (simp add: example_session_request_def replace_non_digits_def is_digit_def)
  have n: "getNumberId example_library ''11999999999''
      = Inr (Some \<lparr>serialized = ''11999999999@c.us''\<rparr>)"
    by (simp add: example_library_def)
  have "mediaUrl media_request = Some ''https://x.com/exam.pdf''"
    and "content media_request = ''hi''"
    by (simp_all add: media_request_def)
  moreover have "fromUrl example_library ''https://x.com/exam.pdf''
      = Inr (MessageMedia ''https://x.com/exam.pdf'')"
    by (simp add: example_library_def)
  moreover have "sendMessage_media example_library ''11999999999@c.us''
      (MessageMedia ''https://x.com/exam.pdf'') ''hi''
      = Inr \<lparr>id_serialized = ''true_11999999999@c.us_3EB1''\<rparr>"
    by (simp add: example_library_def)
  ultimately have 1: "sendMessage_session ready_service example_library media_request =
       (Fulfilled \<lparr>success = True, messageId = Str ''true_11999999999@c.us_3EB1'',
          error = Undefined\<rparr>,
        [GetNumberId ''11999999999'', FromUrl ''https://x.com/exam.pdf'',
         SendMessageMedia ''11999999999@c.us'' (MessageMedia ''https://x.com/exam.pdf'') ''hi''],
        ready_service)"
    using known n unfolding d by fastforce
  have "mediaUrl example_session_request = None"
    and "content example_session_request = ''hi''"
    by (simp_all add: example_session_request_def)
  moreover have "sendMessage_text example_library ''11999999999@c.us'' ''hi''
      = Inr \<lparr>id_serialized = ''true_11999999999@c.us_3EB0''\<rparr>"
    by (simp add: example_library_def)
  ultimately have 2: "sendMessage_session ready_service example_library example_session_request =
       (Fulfilled \<lparr>success = True, messageId = Str ''true_11999999999@c.us_3EB0'',
          error = Undefined\<rparr>,
        [GetNumberId ''11999999999'', SendMessageText ''11999999999@c.us'' ''hi''],
        ready_service)"
    using textual n unfolding d' by fastforce
  have "getNumberId unknown_number_library ''11999999999'' = Inr None"
    by (simp add: unknown_number_library_def)
  then have 3: "sendMessage_session ready_service unknown_number_library media_request =
       (Fulfilled \<lparr>success = False, messageId = Undefined,
          error = Str (not_registered ''(11) 99999-9999'')\<rparr>,
        [GetNumberId ''11999999999''], ready_service)"
    using unknown unfolding d by (simp add: media_request_def)
  have "getNumberId blank_identifier_library ''11999999999''
      = Inr (Some \<lparr>serialized = ''''\<rparr>)"
    by (simp add: blank_identifier_library_def)
  then have 4: "sendMessage_session ready_service blank_identifier_library media_request =
       (Fulfilled \<lparr>success = False, messageId = Undefined,
          error = Str (not_registered ''(11) 99999-9999'')\<rparr>,
        [GetNumberId ''11999999999''], ready_service)"
    using blank unfolding d by (simp add: media_request_def)
  from c r 1 2 3 4 show ?thesis by blast
qed

lemma formatPhoneNumber_longer:
  assumes "length (replace_non_digits phone) \<le> 11"
  shows "length (formatPhoneNumber phone) > length (replace_non_digits phone)"
proof (cases "startsWith (replace_non_digits phone) ''0''")
  case True
  then obtain cs where "replace_non_digits phone = CHR ''0'' # cs"
    by (auto simp: startsWith_zero)
  with assms show ?thesis
    by (simp add: formatPhoneNumber_def Let_def substring_def startsWith_def)
next
  case False
  with assms show ?thesis
    by (simp add: formatPhoneNumber_def Let_def)
qed

lemma sendMessage_session_lookups:
  "GetNumberId number \<in> set (fst (snd (sendMessage_session this lib request)))
     \<Longrightarrow> number = replace_non_digits (recipientPhone request)"
  by (auto simp: sendMessage_session_def Let_def split_beta send_media_def send_text_def
      split: sum.splits option.splits if_splits)

text \<open>
  C10. The session service does not normalise: whatever the state and the request, every
  lookup it makes is for exactly the digits of \<^verbatim>\<open>recipientPhone\<close>, and in the ready
  state it makes that lookup. Whenever those digits are at most 11, they differ from
  what \<^const>\<open>formatPhoneNumber\<close> gives for the same input: 11999999999 is looked up as
  it is, where the Cloud-API service would send to 5511999999999.
\<close>

theorem session_lookup_is_not_normalised:
  "(\<forall>number. GetNumberId number \<in> set (fst (snd (sendMessage_session this lib request)))
       \<longrightarrow> number = replace_non_digits (recipientPhone request))
   \<and> (client this \<noteq> None \<and> isReady this \<longrightarrow>
        GetNumberId (replace_non_digits (recipientPhone request))
          \<in> set (fst (snd (sendMessage_session this lib request))))
   \<and> (length (replace_non_digits phone) \<le> 11 \<longrightarrow>
        replace_non_digits phone \<noteq> formatPhoneNumber phone)
   \<and> replace_non_digits ''11999999999'' = ''11999999999''
   \<and> formatPhoneNumber ''11999999999'' = ''5511999999999''"
proof -
  have 1: "\<forall>number. GetNumberId number \<in> set (fst (snd (sendMessage_session this lib request)))
       \<longrightarrow> number = replace_non_digits (recipientPhone request)"
    using sendMessage_session_lookups by blast
  have 2: "client this \<noteq> None \<and> isReady this \<longrightarrow>
        GetNumberId (replace_non_digits (recipientPhone request))
          \<in> set (fst (snd (sendMessage_session this lib request)))"
    by (auto simp: sendMessage_session_def Let_def split_beta send_media_def send_text_def
        split: sum.split option.split)
  have 3: "length (replace_non_digits phone) \<le> 11 \<longrightarrow>
        replace_non_digits phone \<noteq> formatPhoneNumber phone"
    using formatPhoneNumber_longer [of phone] by auto
  have 4: "replace_non_digits ''11999999999'' = ''11999999999''"
    by (simp add: replace_non_digits_def is_digit_def)
  from 1 2 3 4 formatPhoneNumber_example show ?thesis by blast
qed

theorem session_lookup_is_not_normalised_witness:
  "client ready_service \<noteq> None \<and> isReady ready_service
   \<and> length (replace_non_digits ''(11) 99999-9999'') \<le> 11
   \<and> GetNumberId ''11999999999''
        \<in> set (fst (snd (sendMessage_session ready_service example_library
             example_session_request)))
   \<and> ''11999999999'' \<noteq> formatPhoneNumber ''(11) 99999-9999''"
proof -
  have c: "client ready_service \<noteq> None \<and> isReady ready_service"
    by (simp add: ready_service_def)
  have l: "length (replace_non_digits ''(11) 99999-9999'') \<le> 11"
    by (simp add: replace_non_digits_example)
  have p: "recipientPhone example_session_request = ''(11) 99999-9999''"
    by (simp add: example_session_request_def)
  from c l session_lookup_is_not_normalised
    [of ready_service example_library example_session_request "''(11) 99999-9999''"]
  show ?thesis
    unfolding p replace_non_digits_example by blast
qed

section \<open>Properties of disconnect\<close>

text \<open>
  C9, as stated, fails: the four assignments stand after the two awaited calls inside
  the \<^verbatim>\<open>try\<close> block, and the \<^verbatim>\<open>catch\<close> block only logs and rethrows. When
  \<^verbatim>\<open>logout\<close> throws, the service still holds its client, is still ready and still
  has its phone number when the error reaches the caller.
\<close>

theorem disconnect_keeps_state_when_logout_throws:
  "disconnect ready_service failing_logout_library =
     (Rejected \<lparr>err_message = ''Session closed'', err_response_error = None\<rparr>, [Logout],
      ready_service)
   \<and> client ready_service = Some Client
   \<and> isReady ready_service
   \<and> phoneNumber ready_service = Some ''5511888888888''"
  by (simp add: disconnect_def ready_service_def failing_logout_library_def example_library_def)

text \<open>
  C9, amended. \<^const>\<open>disconnect\<close> does nothing when there is no client. Otherwise it
  logs out and then destroys the client; when both succeed it resets the state (no
  client, not ready, no QR code, no phone number). When \<^verbatim>\<open>logout\<close> throws, the
  client is not destroyed, and when either call throws the error is surfaced to the
  caller with every field of the service as it was.
\<close>

theorem disconnect_contract:
  "(client this = None \<longrightarrow> disconnect this lib = (Fulfilled (), [], this))
   \<and> (client this \<noteq> None \<and> logout lib = Inr () \<and> destroy lib = Inr () \<longrightarrow>
        disconnect this lib = (Fulfilled (), [Logout, Destroy], reset this)
        \<and> client (reset this) = None \<and> \<not> isReady (reset this)
        \<and> qrCodeData (reset this) = None \<and> phoneNumber (reset this) = None)
   \<and> (\<forall>e. client this \<noteq> None \<and> logout lib = Inl e \<longrightarrow>
        disconnect this lib = (Rejected e, [Logout], this))
   \<and> (\<forall>e. client this \<noteq> None \<and> logout lib = Inr () \<and> destroy lib = Inl e \<longrightarrow>
        disconnect this lib = (Rejected e, [Logout, Destroy], this))"
  by (auto simp: disconnect_def reset_def)

theorem disconnect_contract_witness:
  "client new_session_service = None
   \<and> disconnect new_session_service example_library = (Fulfilled (), [], new_session_service)
   \<and> client ready_service \<noteq> None
   \<and> logout example_library = Inr () \<and> destroy example_library = Inr ()
   \<and> disconnect ready_service example_library =
       (Fulfilled (), [Logout, Destroy],
        \<lparr>client = None, isInitializing = False, qrCodeData = None, isReady = False,
         phoneNumber = None\<rparr>)
   \<and> disconnect ready_service failing_logout_library =
       (Rejected \<lparr>err_message = ''Session closed'', err_response_error = None\<rparr>, [Logout],
        ready_service)
   \<and> disconnect ready_service failing_destroy_library =
       (Rejected \<lparr>err_message = ''Target closed'', err_response_error = None\<rparr>,
        [Logout, Destroy], ready_service)"
proof -
  have n: "client new_session_service = None"
    by (simp add: new_session_service_def)
  have r: "client ready_service \<noteq> None"
    by (simp add: ready_service_def)
  have l: "logout example_library = Inr ()" and d: "destroy example_library = Inr ()"
    by (simp_all add: example_library_def)
  have fl: "logout failing_logout_library
      = Inl \<lparr>err_message = ''Session closed'', err_response_error = None\<rparr>"
    by (simp add: failing_logout_library_def)
  have fd: "logout failing_destroy_library = Inr ()"
    "destroy failing_destroy_library
      = Inl \<lparr>err_message = ''Target closed'', err_response_error = None\<rparr>"
    by (simp_all add: failing_destroy_library_def example_library_def)
  have s: "reset ready_service =
      \<lparr>client = None, isInitializing = False, qrCodeData = None, isReady = False,
       phoneNumber = None\<rparr>"
    by (simp add: reset_def ready_service_def)
  from n r l d fl fd
    disconnect_contract [of new_session_service example_library]
    disconnect_contract [of ready_service example_library]
    disconnect_contract [of ready_service failing_logout_library]
    disconnect_contract [of ready_service failing_destroy_library]
  show ?thesis
    unfolding s by blast
qed

section \<open>Properties of initialize\<close>

lemma disconnect_in_parts:
  "disconnect this lib =
     (case disconnect_start this of
        (Some ended, calls) \<Rightarrow> (ended, calls, this)
      | (None, calls) \<Rightarrow>
          (case disconnect_after_logout (logout lib) this of
             (Some ended, calls') \<Rightarrow> (ended, calls @ calls', this)
           | (None, calls') \<Rightarrow>
               (fst (disconnect_after_destroy (destroy lib) this), calls @ calls',
                snd (disconnect_after_destroy (destroy lib) this))))"
  by (simp add: disconnect_def disconnect_start_def disconnect_after_logout_def
      disconnect_after_destroy_def reset_def split: sum.split)

lemma initialize_guarded: "guarded this \<Longrightarrow> initialize this = (Returned, this, [])"
  by (auto simp: guarded_def initialize_def)

lemma initialize_unguarded:
  "\<not> guarded this \<Longrightarrow>
   initialize this =
     (Awaiting, this\<lparr>isInitializing := True, client := Some Client\<rparr>,
      [NewClient, On ''qr'', On ''authenticated'', On ''ready'', On ''disconnected'',
       On ''auth_failure'', ClientInitialize])"
  by (auto simp: guarded_def initialize_def)

lemma on_ready_fields:
  "client (on_ready info this) = client this"
  "isReady (on_ready info this)"
  "\<not> isInitializing (on_ready info this)"
  by (simp_all add: on_ready_def Let_def split: option.split)

lemma single_flight_guarded:
  "single_flight sys \<Longrightarrow> pending sys \<noteq> 0 \<Longrightarrow> guarded (service sys)"
  by (auto simp: single_flight_def guarded_def)

lemma single_flight_idle: "pending sys = 0 \<Longrightarrow> single_flight sys"
  by (simp add: single_flight_def)

lemma single_flight_step:
  assumes "single_flight sys" and "pending sys = 0 \<or> keeps_guard e"
  shows "single_flight (step sys e)"
proof (cases e)
  case CallInitialize
  show ?thesis
  proof (cases "guarded (service sys)")
    case True
    with assms CallInitialize show ?thesis
      by (simp add: initialize_guarded single_flight_def)
  next
    case False
    with assms(1) have "pending sys = 0"
      using single_flight_guarded by blast
    with False CallInitialize show ?thesis
      by (simp add: initialize_unguarded single_flight_def)
  qed
next
  case (Settled r)
  with assms show ?thesis
    by (auto simp: single_flight_def initialize_settled_def split: sum.split)
next
  case CallDisconnect
  with assms show ?thesis
    by (auto simp: single_flight_def disconnect_start_def)
next
  case (LogoutSettled r)
  with assms show ?thesis
    by (auto simp: single_flight_def disconnect_after_logout_def split: sum.split)
next
  case (DestroySettled r)
  show ?thesis
  proof (cases "pending sys = 0")
    case True
    with DestroySettled show ?thesis
      by (simp add: single_flight_def)
  next
    case False
    with assms DestroySettled obtain e' where "r = Inl e'"
      by (cases r) auto
    with assms DestroySettled show ?thesis
      by (auto simp: single_flight_def disconnect_after_destroy_def)
  qed
next
  case (Qr qr)
  with assms show ?thesis
    by (auto simp: single_flight_def callback_def on_qr_def)
next
  case Authenticated
  with assms show ?thesis
    by (auto simp: single_flight_def callback_def on_authenticated_def)
next
  case (Ready info)
  with assms show ?thesis
    by (auto simp: single_flight_def callback_def on_ready_fields)
next
  case (Disconnected reason)
  with assms have "pending sys = 0" by simp
  with Disconnected show ?thesis
    by (simp add: single_flight_def callback_def)
next
  case (AuthFailure msg)
  with assms have "pending sys = 0" by simp
  with AuthFailure show ?thesis
    by (simp add: single_flight_def callback_def)
qed

lemma single_flight_run:
  "single_flight sys \<Longrightarrow> undisturbed sys events \<Longrightarrow> single_flight (run sys events)"
  unfolding run_def
  by (induction events arbitrary: sys) (simp_all add: single_flight_step)

lemma single_flight_new: "single_flight new_system"
  by (simp add: single_flight_def new_system_def)

lemma single_flight_events:
  "undisturbed new_system events \<Longrightarrow> pending (run new_system events) \<le> 1"
  using single_flight_run [OF single_flight_new, of events]
  by (simp add: single_flight_def)

lemma two_calls:
  assumes "\<not> guarded (service sys)"
  shows "constructed (run sys [CallInitialize, CallInitialize]) = Suc (constructed sys)"
    and "pending (run sys [CallInitialize, CallInitialize]) = Suc (pending sys)"
    and "fst (initialize (service (run sys [CallInitialize]))) = Returned"
  using assms
  by (auto simp: run_def initialize_unguarded initialize_def constructed_def guarded_def)

lemma undisturbed_take: "undisturbed sys events \<Longrightarrow> undisturbed sys (take n events)"
proof (induction events arbitrary: sys n)
  case Nil
  then show ?case by simp
next
  case (Cons e events)
  then show ?case by (cases n) simp_all
qed

text \<open>
  The guard can also be taken away by the service's own \<^verbatim>\<open>disconnect()\<close>: when the
  service is ready while the first call is still suspended, a teardown that succeeds
  clears the client, and the next call builds a second one.
\<close>

lemma initialize_twice_after_disconnect:
  "pending (run new_system
     [CallInitialize, Ready None, CallDisconnect, LogoutSettled (Inr ()),
      DestroySettled (Inr ()), CallInitialize]) = 2"
  by (simp add: run_def new_system_def new_session_service_def initialize_def callback_def
      on_ready_def disconnect_start_def disconnect_after_logout_def
      disconnect_after_destroy_def reset_def)

text \<open>
  C8, as stated, fails: the \<^verbatim>\<open>auth_failure\<close> callback clears
  \<^verbatim>\<open>isInitializing\<close> without waiting for the suspended call. A call of
  \<^verbatim>\<open>initialize()\<close>, that callback and a second call leave two calls suspended at
  their \<^verbatim>\<open>await\<close> and two clients built.
\<close>

theorem initialize_twice_after_auth_failure:
  "pending (run new_system [CallInitialize, AuthFailure ''auth failed'', CallInitialize]) = 2
   \<and> constructed (run new_system [CallInitialize, AuthFailure ''auth failed'', CallInitialize])
       = 2"
  by (simp add: run_def new_system_def new_session_service_def initialize_def callback_def
      on_auth_failure_def constructed_def)

text \<open>
  C8, amended. \<^const>\<open>initialize\<close> builds no client and returns at once when the client
  exists and the service is ready, and likewise when \<^verbatim>\<open>isInitializing\<close> is set.
  Therefore two calls with nothing between them, from a state where neither holds, build
  exactly one client and leave one call suspended: the second returns at once. And in
  every run of the service (calls of \<^verbatim>\<open>initialize()\<close> and \<^verbatim>\<open>disconnect()\<close>,
  settlements and callbacks) in which no \<^verbatim>\<open>auth_failure\<close> callback, no
  \<^verbatim>\<open>disconnected\<close> callback and no reset by a finished \<^verbatim>\<open>disconnect()\<close> happens
  while a call of \<^verbatim>\<open>initialize()\<close> is suspended, at most one call of
  \<^verbatim>\<open>initialize()\<close> is suspended at any time.
\<close>

theorem initialize_single_flight:
  "(client this \<noteq> None \<and> isReady this \<longrightarrow> initialize this = (Returned, this, []))
   \<and> (isInitializing this \<longrightarrow> initialize this = (Returned, this, []))
   \<and> (\<not> (client (service sys) \<noteq> None \<and> isReady (service sys))
        \<and> \<not> isInitializing (service sys) \<longrightarrow>
        constructed (run sys [CallInitialize, CallInitialize]) = Suc (constructed sys)
        \<and> pending (run sys [CallInitialize, CallInitialize]) = Suc (pending sys)
        \<and> fst (initialize (service (run sys [CallInitialize]))) = Returned)
   \<and> (undisturbed new_system events \<longrightarrow>
        (\<forall>n. pending (run new_system (take n events)) \<le> 1))"
proof -
  have 1: "client this \<noteq> None \<and> isReady this \<longrightarrow> initialize this = (Returned, this, [])"
    by (simp add: initialize_guarded guarded_def)
  have 2: "isInitializing this \<longrightarrow> initialize this = (Returned, this, [])"
    by (simp add: initialize_guarded guarded_def)
  have 3: "\<not> (client (service sys) \<noteq> None \<and> isReady (service sys))
        \<and> \<not> isInitializing (service sys) \<longrightarrow>
        constructed (run sys [CallInitialize, CallInitialize]) = Suc (constructed sys)
        \<and> pending (run sys [CallInitialize, CallInitialize]) = Suc (pending sys)
        \<and> fst (initialize (service (run sys [CallInitialize]))) = Returned"
    using two_calls [of sys] by (auto simp: guarded_def)
  have 4: "undisturbed new_system events \<longrightarrow>
        (\<forall>n. pending (run new_system (take n events)) \<le> 1)"
    using single_flight_events undisturbed_take by blast
  from 1 2 3 4 show ?thesis by blast
qed

lemma undisturbed_quiet_events: "undisturbed new_system quiet_events"
  by (simp add: quiet_events_def new_system_def new_session_service_def initialize_def
      callback_def on_qr_def on_authenticated_def on_ready_def initialize_settled_def
      disconnect_start_def disconnect_after_logout_def disconnect_after_destroy_def reset_def
      on_auth_failure_def)

theorem initialize_single_flight_witness:
  "client ready_service \<noteq> None \<and> isReady ready_service
   \<and> initialize ready_service = (Returned, ready_service, [])
   \<and> isInitializing initializing_service
   \<and> initialize initializing_service = (Returned, initializing_service, [])
   \<and> \<not> isInitializing (service new_system) \<and> \<not> isReady (service new_system)
   \<and> constructed (run new_system [CallInitialize, CallInitialize]) = 1
   \<and> pending (run new_system [CallInitialize, CallInitialize]) = 1
   \<and> undisturbed new_system quiet_events
   \<and> pending (run new_system quiet_events) \<le> 1"
proof -
  have r: "client ready_service \<noteq> None \<and> isReady ready_service"
    by (simp add: ready_service_def)
  have i: "isInitializing initializing_service"
    by (simp add: initializing_service_def)
  have n: "\<not> isInitializing (service new_system) \<and> \<not> isReady (service new_system)"
    by (simp add: new_system_def new_session_service_def)
  have z: "constructed new_system = 0" "pending new_system = 0"
    by (simp_all add: new_system_def constructed_def)
  note q = undisturbed_quiet_events
  from q initialize_single_flight [of ready_service new_system quiet_events]
  have "\<forall>n. pending (run new_system (take n quiet_events)) \<le> 1"
    by blast
  then have "pending (run new_system (take (length quiet_events) quiet_events)) \<le> 1"
    by blast
  then have p: "pending (run new_system quiet_events) \<le> 1"
    by simp
  from r i n q p
    initialize_single_flight [of ready_service new_system quiet_events]
    initialize_single_flight [of initializing_service new_system quiet_events]
  show ?thesis
    unfolding z by simp
qed

section \<open>The remaining paths\<close>

text \<open>
  The paths of the services that the properties above do not pin down, each evaluated:
  an answer without messages, a template with parameters, errors thrown in the session
  service, and the callbacks.
\<close>

lemma first_message_id_cases:
  "first_message_id \<lparr>messages = None\<rparr> = Inl no_messages"
  "first_message_id \<lparr>messages = Some []\<rparr> = Inl no_first_message"
  "first_message_id \<lparr>messages = Some (first # rest)\<rparr> = Inr (msg_id first)"
  by (simp_all add: first_message_id_def)

lemma sendMessage_cloud_without_messages:
  "fst (sendMessage_cloud example_service (\<lambda>call. Inr \<lparr>messages = Some []\<rparr>) example_request)
     = Fulfilled \<lparr>success = False, messageId = Undefined,
         error = Str ''Cannot read properties of undefined (reading 'id')''\<rparr>"
  by (simp add: sendMessage_cloud_def isConfigured_example Let_def first_message_id_def
      sendMessage_catch_def no_first_message_def)

lemma sendTemplateMessage_with_parameters:
  "sendTemplateMessage example_service accepting_provider ''11999999999'' ''exam_ready'' None
     (Some [''Rex'', ''Ultrassom''])
   = (Fulfilled \<lparr>success = True, messageId = Str ''wamid.1'', error = Undefined\<rparr>,
      [\<lparr>url = ''https://graph.facebook.com/v18.0/1234567890/messages'',
        payload = JObject
          [(''messaging_product'', JString ''whatsapp''),
           (''to'', JString ''5511999999999''),
           (''type'', JString ''template''),
           (''template'', JObject
              [(''name'', JString ''exam_ready''),
               (''language'', JObject [(''code'', JString ''pt_BR'')]),
               (''components'', JArray [JObject
                  [(''type'', JString ''body''),
                   (''parameters'', JArray
                      [JObject [(''type'', JString ''text''), (''text'', JString ''Rex'')],
                       JObject [(''type'', JString ''text''),
                         (''text'', JString ''Ultrassom'')]])]])])],
        headers = [(''Authorization'', ''Bearer token''),
                   (''Content-Type'', ''application/json'')]\<rparr>])"
  by (simp add: sendTemplateMessage_def isConfigured_example Let_def first_message_id_def
      accepting_provider_def example_service_def formatPhoneNumber_example
      template_components_def bearer_headers_def isConfigured_def)

lemma sendTemplateMessage_without_parameters:
  "map (field ''template'' \<circ> payload)
     (snd (sendTemplateMessage example_service accepting_provider ''11999999999''
        ''exam_ready'' (Some ''en_US'') (Some [])))
   = [Some (JObject
        [(''name'', JString ''exam_ready''),
         (''language'', JObject [(''code'', JString ''en_US'')])])]"
  by (simp add: sendTemplateMessage_def isConfigured_example Let_def first_message_id_def
      accepting_provider_def)

lemma sendTemplateMessage_catch_cases:
  "error (sendTemplateMessage_catch
     \<lparr>err_message = ''Request failed with status code 400'',
      err_response_error = Some \<lparr>pe_message = Str ''Template not found'',
        pe_code = Number (whole 132)\<rparr>\<rparr>) = Str ''Template not found''"
  "error (sendTemplateMessage_catch
     \<lparr>err_message = ''Request failed with status code 400'',
      err_response_error = Some \<lparr>pe_message = Undefined, pe_code = Undefined\<rparr>\<rparr>)
   = Str ''Request failed with status code 400''"
  "error (sendTemplateMessage_catch
     \<lparr>err_message = ''Network Error'', err_response_error = None\<rparr>) = Str ''Network Error''"
  by (simp_all add: sendTemplateMessage_catch_def)

lemma sendMessage_session_throws:
  assumes "client this \<noteq> None" and "isReady this"
  shows "getNumberId lib (replace_non_digits (recipientPhone request)) = Inl e \<Longrightarrow>
      sendMessage_session this lib request =
        (Fulfilled (sendMessage_session_catch e),
         [GetNumberId (replace_non_digits (recipientPhone request))], this)"
    and "getNumberId lib (replace_non_digits (recipientPhone request)) = Inr (Some numberId)
      \<Longrightarrow> serialized numberId \<noteq> [] \<Longrightarrow> mediaUrl request = Some address
      \<Longrightarrow> address \<noteq> [] \<Longrightarrow> fromUrl lib address = Inl e \<Longrightarrow>
      sendMessage_session this lib request =
        (Fulfilled (sendMessage_session_catch e),
         [GetNumberId (replace_non_digits (recipientPhone request)), FromUrl address], this)"
    and "getNumberId lib (replace_non_digits (recipientPhone request)) = Inr (Some numberId)
      \<Longrightarrow> serialized numberId \<noteq> [] \<Longrightarrow> mediaUrl request = None
      \<Longrightarrow> sendMessage_text lib (serialized numberId) (content request) = Inl e \<Longrightarrow>
      sendMessage_session this lib request =
        (Fulfilled (sendMessage_session_catch e),
         [GetNumberId (replace_non_digits (recipientPhone request)),
          SendMessageText (serialized numberId) (content request)], this)"
  using assms
  by (auto simp: sendMessage_session_def Let_def send_media_def send_text_def)

lemma sendMessage_session_catch_cases:
  "sendMessage_session_catch \<lparr>err_message = ''Evaluation failed'', err_response_error = None\<rparr>
     = \<lparr>success = False, messageId = Undefined, error = Str ''Evaluation failed''\<rparr>"
  "sendMessage_session_catch \<lparr>err_message = '''', err_response_error = None\<rparr>
     = \<lparr>success = False, messageId = Undefined, error = Str ''Erro ao enviar mensagem''\<rparr>"
  by (simp_all add: sendMessage_session_catch_def erro_ao_enviar_def)

lemma callbacks_example:
  "service (run new_system [CallInitialize, Qr ''2@abc''])
     = \<lparr>client = Some Client, isInitializing = True, qrCodeData = Some ''2@abc'',
        isReady = False, phoneNumber = None\<rparr>"
  "service (run new_system
      [CallInitialize, Qr ''2@abc'', Authenticated, Ready (Some ''5511888888888'')])
     = ready_service"
  "service (run new_system
      [CallInitialize, Qr ''2@abc'', Authenticated, Ready (Some ''5511888888888''),
       Disconnected ''LOGOUT''])
     = \<lparr>client = Some Client, isInitializing = False, qrCodeData = None, isReady = False,
        phoneNumber = Some ''5511888888888''\<rparr>"
  "service (run new_system [CallInitialize, Qr ''2@abc'', AuthFailure ''auth failed''])
     = \<lparr>client = Some Client, isInitializing = False, qrCodeData = None, isReady = False,
        phoneNumber = None\<rparr>"
  "service (run new_system [CallInitialize, Settled (Inl e)])
     = \<lparr>client = Some Client, isInitializing = False, qrCodeData = None, isReady = False,
        phoneNumber = None\<rparr>"
  by (simp_all add: run_def new_system_def new_session_service_def initialize_def callback_def
      on_qr_def on_authenticated_def on_ready_def on_disconnected_def on_auth_failure_def
      initialize_settled_def ready_service_def)

end
